theory Spec2Isabelle
  imports Complex_Main "HOL-Library.Stream"
begin

section \<open>The samplers of \<open>exp_sampler.py\<close>\<close>

text \<open>
  The source computes with IEEE doubles through numpy. This development reads every
  arithmetic expression of the source over the real numbers: \<open>np.exp\<close> is \<open>exp\<close>,
  \<open>np.log\<close> is \<open>ln\<close>, \<open>np.log1p x\<close> is \<open>ln (1 + x)\<close> and \<open>x ** y\<close> is \<open>x powr y\<close>.
  The readings agree with the source where the argument of a logarithm and the base of a
  power are positive and the divisor is not zero; each statement below that depends on
  one of these carries the condition as a hypothesis. Rounding, overflow and underflow
  are outside this model. The one non-real value the source returns on purpose,
  \<open>np.inf\<close>, is the constructor \<open>PosInf\<close>.
\<close>

datatype error = ValueError | IndexError | AssertionError

datatype time = Finite real | PosInf

text \<open>
  The two concrete classes. The base class \<open>CDFSampler\<close> has no instance: its
  constructor calls \<open>reset\<close>, which calls the unimplemented \<open>generate_sample\<close>.
  The scale \<open>k\<close> is an attribute of the sigmoid class only.
\<close>

datatype family = ExpCDFSampler | SigmoidCDFSampler real

record sampler =
  cls :: family
  seed :: int
  vt :: "real list"
  wt :: real
  bt :: real
  w :: real
  Q :: real
  random_state :: "real stream"
  u_unif :: real
  h :: "real list"
  c :: real
  t0 :: real

text \<open>
  \<open>np.random.RandomState\<close> is not part of the repository: the generator is the stream
  of numbers its \<open>rand()\<close> will return, and a call takes the head.
\<close>

definition rand :: "real stream \<Rightarrow> real \<times> real stream" where
  "rand rs = (shd rs, stl rs)"

text \<open>
  \<open>vt.dot(h)\<close> for a vector \<open>vt\<close> and a column \<open>h\<close>; numpy raises \<open>ValueError\<close>
  when the shapes do not agree.
\<close>

definition dot :: "real list \<Rightarrow> real list \<Rightarrow> error + real" where
  "dot xs ys =
     (if length xs = length ys then Inr (sum_list (map2 (*) xs ys)) else Inl ValueError)"

subsection \<open>The exponential class\<close>

definition exp_cdf :: "sampler \<Rightarrow> real \<Rightarrow> real" where
  "exp_cdf s t = 1 - exp ((exp (c s) / w s) * (1 - exp (w s * (t - t0 s))))"

definition exp_generate_sample :: "sampler \<Rightarrow> time" where
  "exp_generate_sample s =
     (let D = 1 - (w s / exp (c s)) * ln ((1 - u_unif s) / Q s)
      in if D \<le> 0 then PosInf else Finite (t0 s + (1 / w s) * ln D))"

definition exp_int_u :: "sampler \<Rightarrow> real \<Rightarrow> real \<Rightarrow> real" where
  "exp_int_u s dt ci = (1 / wt s) * (exp (ci + wt s * dt) - exp ci)"

definition exp_log_u :: "sampler \<Rightarrow> real \<Rightarrow> real \<Rightarrow> real" where
  "exp_log_u s dt ci = ci + wt s * dt"

definition exp_int_u_2 :: "sampler \<Rightarrow> real \<Rightarrow> real \<Rightarrow> real" where
  "exp_int_u_2 s dt ci =
     (1 / (2 * wt s)) * (exp (2 * ci + 2 * wt s * dt) - exp (2 * ci))"

subsection \<open>The sigmoid class\<close>

definition sigmoid_cdf :: "real \<Rightarrow> sampler \<Rightarrow> real \<Rightarrow> real" where
  "sigmoid_cdf k s t =
     (let C = (1 + exp (c s)) / (1 + exp (c s + wt s * (t - t0 s)))
      in 1 - C powr (k / wt s))"

definition sigmoid_generate_sample :: "real \<Rightarrow> sampler \<Rightarrow> time" where
  "sigmoid_generate_sample k s =
     (let D = (1 + exp (c s)) * ((1 - u_unif s) / Q s) powr (- k / wt s) - 1
      in if D \<le> 0 then PosInf else Finite (t0 s + (ln D - c s) / wt s))"

definition sigmoid_log_u :: "sampler \<Rightarrow> real \<Rightarrow> real \<Rightarrow> real" where
  "sigmoid_log_u s dt ci = ln (1 / (1 + exp (- (ci + wt s * dt))))"

definition sigmoid_int_u :: "real \<Rightarrow> sampler \<Rightarrow> real \<Rightarrow> real \<Rightarrow> real" where
  "sigmoid_int_u k s dt ci =
     (k / wt s) * (ln (1 + exp (ci + wt s * dt)) - ln (1 + exp ci))"

definition sigmoid_int_u_2 :: "real \<Rightarrow> sampler \<Rightarrow> real \<Rightarrow> real \<Rightarrow> real" where
  "sigmoid_int_u_2 k s dt ci =
     (k ^ 2 / wt s) * (1 / (1 + exp (ci + wt s * dt)) + ln (1 + exp (ci + wt s * dt))
                        - 1 / (1 + exp ci) - ln (1 + exp ci))"

subsection \<open>Method dispatch\<close>

definition cdf :: "sampler \<Rightarrow> real \<Rightarrow> real" where
  "cdf s t =
     (case cls s of ExpCDFSampler \<Rightarrow> exp_cdf s t | SigmoidCDFSampler k \<Rightarrow> sigmoid_cdf k s t)"

definition generate_sample :: "sampler \<Rightarrow> time" where
  "generate_sample s =
     (case cls s of ExpCDFSampler \<Rightarrow> exp_generate_sample s
      | SigmoidCDFSampler k \<Rightarrow> sigmoid_generate_sample k s)"

definition int_u :: "sampler \<Rightarrow> real \<Rightarrow> real \<Rightarrow> real" where
  "int_u s dt ci =
     (case cls s of ExpCDFSampler \<Rightarrow> exp_int_u s dt ci
      | SigmoidCDFSampler k \<Rightarrow> sigmoid_int_u k s dt ci)"

definition log_u :: "sampler \<Rightarrow> real \<Rightarrow> real \<Rightarrow> real" where
  "log_u s dt ci =
     (case cls s of ExpCDFSampler \<Rightarrow> exp_log_u s dt ci
      | SigmoidCDFSampler k \<Rightarrow> sigmoid_log_u s dt ci)"

definition int_u_2 :: "sampler \<Rightarrow> real \<Rightarrow> real \<Rightarrow> real" where
  "int_u_2 s dt ci =
     (case cls s of ExpCDFSampler \<Rightarrow> exp_int_u_2 s dt ci
      | SigmoidCDFSampler k \<Rightarrow> sigmoid_int_u_2 k s dt ci)"

subsection \<open>The methods of the base class\<close>

definition reset_only_sample :: "sampler \<Rightarrow> real \<Rightarrow> time \<times> sampler" where
  "reset_only_sample s cur_time =
     (let s1 = s\<lparr>c := c s + w s * (cur_time - t0 s)\<rparr>;
          s2 = s1\<lparr>t0 := cur_time\<rparr>;
          (u, rs) = rand (random_state s2);
          s3 = s2\<lparr>u_unif := u, random_state := rs\<rparr>;
          s4 = s3\<lparr>Q := 1\<rparr>
      in (generate_sample s4, s4))"

definition reset :: "sampler \<Rightarrow> real \<Rightarrow> real list \<Rightarrow> bool \<Rightarrow> error + time \<times> sampler" where
  "reset s cur_time init_h reset_sample =
     (let s1 = (if reset_sample
                then (let (u, rs) = rand (random_state s)
                      in s\<lparr>u_unif := u, random_state := rs, Q := 1\<rparr>)
                else s\<lparr>Q := Q s * (1 - cdf s cur_time)\<rparr>);
          s2 = s1\<lparr>h := init_h\<rparr>
      in case dot (vt s2) (h s2) of
           Inl e \<Rightarrow> Inl e
         | Inr d \<Rightarrow>
             (let s3 = s2\<lparr>c := d + bt s2\<rparr>;
                  s4 = s3\<lparr>t0 := cur_time\<rparr>
              in Inr (generate_sample s4, s4)))"

definition register_event :: "sampler \<Rightarrow> real \<Rightarrow> real list \<Rightarrow> bool \<Rightarrow> error + time \<times> sampler" where
  "register_event s time new_h own_event = reset s time new_h own_event"

definition get_last_hidden_state :: "sampler \<Rightarrow> real list" where
  "get_last_hidden_state s = h s"

definition get_last_c :: "sampler \<Rightarrow> real" where
  "get_last_c s = c s"


definition calc_quad_loss :: "sampler \<Rightarrow> real list \<Rightarrow> real list \<Rightarrow> real" where
  "calc_quad_loss s event_time_deltas c_is =
     sum_list (map (\<lambda>(dt, ci). int_u_2 s dt ci) (zip event_time_deltas c_is))"

text \<open>
  \<open>is_own_event[-1]\<close> raises \<open>IndexError\<close> on an empty list, before the assertion.
\<close>

definition calc_LL :: "sampler \<Rightarrow> real list \<Rightarrow> real list \<Rightarrow> bool list \<Rightarrow> error + real" where
  "calc_LL s event_time_deltas c_is is_own_event =
     (if is_own_event = [] then Inl IndexError
      else if last is_own_event then Inl AssertionError
      else
        (let LL_log = sum_list (map (\<lambda>(dt, ci, ev). log_u s dt ci)
                        (filter (\<lambda>(dt, ci, ev). ev)
                           (zip event_time_deltas (zip c_is is_own_event))));
             LL_int = sum_list (map (\<lambda>(dt, ci). int_u s dt ci) (zip event_time_deltas c_is))
         in Inr (LL_log - LL_int)))"

section \<open>Sequences of calls\<close>











section \<open>The quantities the specification names\<close>

text \<open>
  The algebraic decay variable of inverse sampling, as the specification gives it for
  each family.
\<close>

definition decay_D :: "sampler \<Rightarrow> real" where
  "decay_D s =
     (case cls s of
        ExpCDFSampler \<Rightarrow> 1 - (w s / exp (c s)) * ln ((1 - u_unif s) / Q s)
      | SigmoidCDFSampler k \<Rightarrow>
          (1 + exp (c s)) * ((1 - u_unif s) / Q s) powr (- k / wt s) - 1)"

text \<open>
  Sums over the first \<open>n\<close> indices: of \<open>log_u\<close> over the indices whose flag is true, of
  \<open>int_u\<close> and of \<open>int_u_2\<close> over all of them.
\<close>

definition log_sum :: "sampler \<Rightarrow> nat \<Rightarrow> real list \<Rightarrow> real list \<Rightarrow> bool list \<Rightarrow> real" where
  "log_sum s n dts cs evs =
     (\<Sum>i\<leftarrow>filter (\<lambda>i. evs ! i) [0..<n]. log_u s (dts ! i) (cs ! i))"

definition int_sum :: "sampler \<Rightarrow> nat \<Rightarrow> real list \<Rightarrow> real list \<Rightarrow> real" where
  "int_sum s n dts cs = (\<Sum>i\<leftarrow>[0..<n]. int_u s (dts ! i) (cs ! i))"

definition int_2_sum :: "sampler \<Rightarrow> nat \<Rightarrow> real list \<Rightarrow> real list \<Rightarrow> real" where
  "int_2_sum s n dts cs = (\<Sum>i\<leftarrow>[0..<n]. int_u_2 s (dts ! i) (cs ! i))"

text \<open>
  The log-likelihood with both sums taken over the common prefix of the three lists.
\<close>

definition common_prefix_LL :: "sampler \<Rightarrow> real list \<Rightarrow> real list \<Rightarrow> bool list \<Rightarrow> real" where
  "common_prefix_LL s dts cs evs =
     (let n = min (length dts) (min (length cs) (length evs))
      in log_sum s n dts cs evs - int_sum s n dts cs)"

section \<open>Concrete samplers\<close>

text \<open>
  An exponential sampler with \<open>w = 1\<close>, \<open>c = 0\<close>, \<open>u_unif = 0.5\<close>, \<open>Q = 1\<close> anchored
  at 0, as the constructor builds it from a generator that returns 0.5.
\<close>

definition exp_unit :: sampler where
  "exp_unit =
     \<lparr>cls = ExpCDFSampler, seed = 42, vt = [0], wt = 1, bt = 0, w = 1, Q = 1,
      random_state = sconst (1 / 2), u_unif = 1 / 2, h = [0], c = 0, t0 = 0\<rparr>"

text \<open>A sigmoid sampler with scale \<open>k = 2\<close> and rate 1.\<close>

definition sigmoid_two :: sampler where
  "sigmoid_two =
     \<lparr>cls = SigmoidCDFSampler 2, seed = 42, vt = [0], wt = 1, bt = 0, w = 1, Q = 1,
      random_state = sconst (1 / 2), u_unif = 1 / 2, h = [0], c = 0, t0 = 0\<rparr>"

text \<open>
  An exponential sampler with a decaying intensity (\<open>w = -1\<close>), a very negative bias
  and a uniform variate close to 1 (about 0.999).
\<close>

definition exp_decaying :: sampler where
  "exp_decaying =
     \<lparr>cls = ExpCDFSampler, seed = 42, vt = [1], wt = - 1, bt = 0, w = - 1, Q = 1,
      random_state = sconst (1 / 2), u_unif = 1 - exp (- 7), h = [- 50], c = - 50, t0 = 0\<rparr>"

section \<open>\<open>reset_only_sample\<close>\<close>

text \<open>
  Claim C9. A call \<open>reset_only_sample(cur_time)\<close> advances the cached bias to
  \<open>c + w * (cur_time - t0)\<close>, sets the anchor to \<open>cur_time\<close>, sets \<open>Q\<close> to 1, takes the
  next number of the generator as the new uniform variate, returns
  \<open>generate_sample\<close> of the updated sampler, and leaves the hidden state \<open>h\<close> (and the
  parameters) as they were.
\<close>

theorem reset_only_sample_effect:
  "c (snd (reset_only_sample s cur_time)) = c s + w s * (cur_time - t0 s)
   \<and> t0 (snd (reset_only_sample s cur_time)) = cur_time
   \<and> Q (snd (reset_only_sample s cur_time)) = 1
   \<and> u_unif (snd (reset_only_sample s cur_time)) = shd (random_state s)
   \<and> random_state (snd (reset_only_sample s cur_time)) = stl (random_state s)
   \<and> fst (reset_only_sample s cur_time) = generate_sample (snd (reset_only_sample s cur_time))
   \<and> h (snd (reset_only_sample s cur_time)) = h s
   \<and> vt (snd (reset_only_sample s cur_time)) = vt s
   \<and> wt (snd (reset_only_sample s cur_time)) = wt s
   \<and> bt (snd (reset_only_sample s cur_time)) = bt s
   \<and> w (snd (reset_only_sample s cur_time)) = w s
   \<and> cls (snd (reset_only_sample s cur_time)) = cls s"
  by (simp add: reset_only_sample_def rand_def Let_def)

section \<open>Inverse sampling\<close>

text \<open>
  For the exponential class the candidate time inverts the CDF: with \<open>Q = 1\<close>, a nonzero
  rate and a uniform variate below 1, the CDF at a finite candidate is the variate.
\<close>

lemma exp_roundtrip:
  assumes "cls s = ExpCDFSampler" "w s \<noteq> 0" "u_unif s < 1" "Q s = 1"
    and "generate_sample s = Finite t"
  shows "cdf s t = u_unif s"
proof -
  define D where "D = 1 - (w s / exp (c s)) * ln ((1 - u_unif s) / Q s)"
  from assms(1,5) have D: "0 < D" and t: "t = t0 s + (1 / w s) * ln D"
    by (auto simp: generate_sample_def exp_generate_sample_def Let_def D_def split: if_splits)
  have "w s * (t - t0 s) = ln D" using assms(2) t by simp
  then have "exp (w s * (t - t0 s)) = D" using D by simp
  then have "cdf s t = 1 - exp ((exp (c s) / w s) * (1 - D))"
    using assms(1) by (simp add: cdf_def exp_cdf_def)
  also have "(exp (c s) / w s) * (1 - D) = ln (1 - u_unif s)"
    using assms(2,4) by (simp add: D_def)
  finally show ?thesis using assms(3) by simp
qed


text \<open>
  The same holds for the sigmoid class when the scale equals the rate, in which case the
  exponent \<open>- k / wt\<close> of \<open>generate_sample\<close> and the exponent \<open>k / wt\<close> of \<open>cdf\<close>
  are \<open>- 1\<close> and \<open>1\<close>.
\<close>

lemma sigmoid_roundtrip_unit_exponent:
  assumes "cls s = SigmoidCDFSampler k" "k = wt s" "wt s \<noteq> 0" "u_unif s < 1" "Q s = 1"
    and "generate_sample s = Finite t"
  shows "cdf s t = u_unif s"
proof -
  define D where "D = (1 + exp (c s)) * ((1 - u_unif s) / Q s) powr (- k / wt s) - 1"
  from assms(1,6) have D: "0 < D" and t: "t = t0 s + (ln D - c s) / wt s"
    by (auto simp: generate_sample_def sigmoid_generate_sample_def Let_def D_def split: if_splits)
  have pos: "0 < 1 - u_unif s" using assms(4) by simp
  have "((1 - u_unif s) / Q s) powr (- k / wt s) = inverse (1 - u_unif s)"
    using assms(2,3,5) pos by (simp add: powr_minus)
  then have D1: "1 + D = (1 + exp (c s)) / (1 - u_unif s)"
    by (simp add: D_def divide_inverse)
  have "c s + wt s * (t - t0 s) = ln D" using assms(3) t by simp
  then have "exp (c s + wt s * (t - t0 s)) = D" using D by simp
  then have "cdf s t = 1 - ((1 + exp (c s)) / (1 + D)) powr (k / wt s)"
    using assms(1) by (simp add: cdf_def sigmoid_cdf_def Let_def)
  also have "(1 + exp (c s)) / (1 + D) = 1 - u_unif s"
  proof -
    have "0 < 1 + exp (c s)" by (simp add: add_pos_pos)
    then show ?thesis unfolding D1 by simp
  qed
  also have "(1 - u_unif s) powr (k / wt s) = 1 - u_unif s"
    using assms(2,3) pos by simp
  finally show ?thesis by simp
qed

text \<open>
  Claim C1 (CDF and inverse sampling round trip, for each family). The sigmoid class
  breaks it when the scale differs from the rate: at \<open>k = 2\<close>, \<open>wt = 1\<close>, \<open>c = 0\<close>,
  \<open>t0 = 0\<close>, \<open>Q = 1\<close> and \<open>u_unif = 1/2\<close>, \<open>generate_sample\<close> returns \<open>ln 7\<close>, and
  the CDF there is \<open>15/16\<close>, not \<open>1/2\<close>.
\<close>

theorem sigmoid_roundtrip_broken:
  "Q sigmoid_two = 1 \<and> u_unif sigmoid_two = 1 / 2
   \<and> generate_sample sigmoid_two = Finite (ln 7)
   \<and> cdf sigmoid_two (ln 7) = 15 / 16"
  by (simp add: generate_sample_def sigmoid_generate_sample_def sigmoid_two_def cdf_def
      sigmoid_cdf_def Let_def powr_minus power2_eq_square)

text \<open>
  Claim C4. For the exponential class, \<open>generate_sample\<close> computes
  \<open>D = 1 - (w / exp c) * ln ((1 - u) / Q)\<close> and returns \<open>t0 + (1 / w) * ln D\<close> whenever
  \<open>D > 0\<close>; with \<open>w = 1\<close>, \<open>c = 0\<close>, \<open>u_unif = 1/2\<close> and \<open>Q = 1\<close> it returns
  \<open>t0 + ln (1 - ln (1/2))\<close>.
\<close>

theorem exp_generate_sample_formula:
  "cls s = ExpCDFSampler \<Longrightarrow>
   (0 < 1 - (w s / exp (c s)) * ln ((1 - u_unif s) / Q s) \<longrightarrow>
      generate_sample s =
        Finite (t0 s + (1 / w s) * ln (1 - (w s / exp (c s)) * ln ((1 - u_unif s) / Q s))))
   \<and> (w s = 1 \<and> c s = 0 \<and> u_unif s = 1 / 2 \<and> Q s = 1 \<longrightarrow>
        generate_sample s = Finite (t0 s + ln (1 - ln (1 / 2))))"
proof (intro conjI impI)
  assume e: "cls s = ExpCDFSampler"
  { assume "0 < 1 - (w s / exp (c s)) * ln ((1 - u_unif s) / Q s)"
    then show "generate_sample s =
        Finite (t0 s + (1 / w s) * ln (1 - (w s / exp (c s)) * ln ((1 - u_unif s) / Q s)))"
      using e by (simp add: generate_sample_def exp_generate_sample_def Let_def) }
  { assume a: "w s = 1 \<and> c s = 0 \<and> u_unif s = 1 / 2 \<and> Q s = 1"
    then have ws: "w s = 1" and cs: "c s = 0" and us: "u_unif s = 1 / 2" and qs: "Q s = 1"
      by blast+
    have "ln (1 / 2 :: real) < 0" by simp
    then have pos: "\<not> 1 - ln (1 / 2 :: real) \<le> 0" by linarith
    have "exp_generate_sample s = Finite (t0 s + ln (1 - ln (1 / 2)))"
      unfolding exp_generate_sample_def ws cs us qs Let_def using pos by simp
    then show "generate_sample s = Finite (t0 s + ln (1 - ln (1 / 2)))"
      using e by (simp add: generate_sample_def) }
qed

theorem exp_generate_sample_formula_witness:
  "cls exp_unit = ExpCDFSampler
   \<and> w exp_unit = 1 \<and> c exp_unit = 0 \<and> u_unif exp_unit = 1 / 2 \<and> Q exp_unit = 1
   \<and> generate_sample exp_unit = Finite (t0 exp_unit + ln (1 - ln (1 / 2)))"
  using exp_generate_sample_formula [of exp_unit] by (simp add: exp_unit_def)

section \<open>Log-likelihood and quadratic loss\<close>

text \<open>
  \<open>zip\<close> stops at the shorter list, so a sum over a \<open>zip\<close> is a sum over the indices
  below the smaller length.
\<close>

lemma zip_as_map:
  "zip xs ys = map (\<lambda>i. (xs ! i, ys ! i)) [0..<min (length xs) (length ys)]"
  by (rule nth_equalityI) auto

lemma zip3_as_map:
  "zip xs (zip ys zs) =
     map (\<lambda>i. (xs ! i, ys ! i, zs ! i)) [0..<min (length xs) (min (length ys) (length zs))]"
  by (rule nth_equalityI) auto

lemma quad_loss_index:
  "calc_quad_loss s dts cs = int_2_sum s (min (length dts) (length cs)) dts cs"
  unfolding calc_quad_loss_def int_2_sum_def
  by (subst zip_as_map) (simp add: o_def)

lemma LL_int_index:
  "sum_list (map (\<lambda>(dt, ci). int_u s dt ci) (zip dts cs)) =
     int_sum s (min (length dts) (length cs)) dts cs"
  unfolding int_sum_def
  by (subst zip_as_map) (simp add: o_def)

lemma LL_log_index:
  "sum_list (map (\<lambda>(dt, ci, ev). log_u s dt ci)
      (filter (\<lambda>(dt, ci, ev). ev) (zip dts (zip cs evs)))) =
     log_sum s (min (length dts) (min (length cs) (length evs))) dts cs evs"
  unfolding log_sum_def
  by (subst zip3_as_map) (simp add: o_def filter_map)

lemma calc_LL_index:
  "evs \<noteq> [] \<Longrightarrow>
   calc_LL s dts cs evs =
     (if last evs then Inl AssertionError
      else Inr (log_sum s (min (length dts) (min (length cs) (length evs))) dts cs evs
                - int_sum s (min (length dts) (length cs)) dts cs))"
  by (simp add: calc_LL_def Let_def LL_int_index LL_log_index)

text \<open>
  Claim C5. For lists of deltas, biases and flags of equal length whose last flag is
  false, \<open>calc_LL\<close> returns the sum of \<open>log_u\<close> over the indices whose flag is true
  minus the sum of \<open>int_u\<close> over all indices, the last interval included.
\<close>

theorem calc_LL_sums:
  "length dts = length cs \<Longrightarrow> length cs = length evs \<Longrightarrow> evs \<noteq> [] \<Longrightarrow> \<not> last evs \<Longrightarrow>
   calc_LL s dts cs evs =
     Inr (log_sum s (length dts) dts cs evs - int_sum s (length dts) dts cs)"
  by (simp add: calc_LL_index)

theorem calc_LL_sums_witness:
  "length [1, 2 :: real] = length [0, 1 :: real] \<and> length [0, 1 :: real] = length [True, False]
   \<and> [True, False] \<noteq> [] \<and> \<not> last [True, False]
   \<and> calc_LL exp_unit [1, 2] [0, 1] [True, False] = Inr (1 - ((exp 1 - 1) + (exp 3 - exp 1)))"
  using calc_LL_sums [of "[1, 2]" "[0, 1]" "[True, False]" exp_unit]
  by (simp add: log_sum_def int_sum_def log_u_def int_u_def exp_unit_def exp_log_u_def
      exp_int_u_def upt_conv_Cons)

text \<open>
  Claim C6. For a non-empty list of flags, \<open>calc_LL\<close> fails with the assertion error
  exactly when the last flag is true.
\<close>

theorem calc_LL_assertion:
  "evs \<noteq> [] \<Longrightarrow> (calc_LL s dts cs evs = Inl AssertionError) = last evs"
  by (simp add: calc_LL_def Let_def)

theorem calc_LL_assertion_witness:
  "[False, True] \<noteq> [] \<and> calc_LL exp_unit [1, 2] [0, 1] [False, True] = Inl AssertionError
   \<and> [True, False] \<noteq> [] \<and> calc_LL exp_unit [1, 2] [0, 1] [True, False] \<noteq> Inl AssertionError"
  using calc_LL_assertion [of "[False, True]" exp_unit "[1, 2]" "[0, 1]"]
    calc_LL_assertion [of "[True, False]" exp_unit "[1, 2]" "[0, 1]"]
  by simp

text \<open>
  Claim C10, as stated: with lists of unequal lengths both sums of \<open>calc_LL\<close> run over
  the common prefix of the three lists. It fails for two deltas, two biases and one flag:
  the sum of \<open>int_u\<close> still has two terms.
\<close>

theorem unequal_lengths_counterexample:
  "calc_LL exp_unit [1, 1] [0, 0] [False] \<noteq> Inr (common_prefix_LL exp_unit [1, 1] [0, 0] [False])"
  by (simp add: calc_LL_def common_prefix_LL_def log_sum_def int_sum_def int_u_def exp_unit_def
      exp_int_u_def Let_def upt_conv_Cons)

text \<open>
  Claim C10, amended. No length is compared. \<open>calc_quad_loss\<close> and the sum of \<open>int_u\<close>
  in \<open>calc_LL\<close> run over the first \<open>min (len deltas) (len biases)\<close> indices, the sum of
  \<open>log_u\<close> over the flagged indices among the first
  \<open>min (len deltas) (len biases) (len flags)\<close>, and the assertion reads the last element
  of the whole list of flags.
\<close>

theorem unequal_lengths_sums:
  "calc_quad_loss s dts cs = int_2_sum s (min (length dts) (length cs)) dts cs
   \<and> (evs \<noteq> [] \<longrightarrow>
        calc_LL s dts cs evs =
          (if last evs then Inl AssertionError
           else Inr (log_sum s (min (length dts) (min (length cs) (length evs))) dts cs evs
                     - int_sum s (min (length dts) (length cs)) dts cs)))"
  using quad_loss_index calc_LL_index by blast

theorem unequal_lengths_sums_witness:
  "calc_quad_loss exp_unit [1, 1] [0] = (exp 2 - 1) / 2
   \<and> [False] \<noteq> []
   \<and> calc_LL exp_unit [1, 1] [0, 0] [False] = Inr (- ((exp 1 - 1) + (exp 1 - 1)))
   \<and> calc_LL exp_unit [1] [0] [False, True] = Inl AssertionError"
  using unequal_lengths_sums [of exp_unit "[1, 1]" "[0]" "[False]"]
    unequal_lengths_sums [of exp_unit "[1, 1]" "[0, 0]" "[False]"]
    unequal_lengths_sums [of exp_unit "[1]" "[0]" "[False, True]"]
  by (simp add: log_sum_def int_sum_def int_2_sum_def int_u_def int_u_2_def exp_unit_def
      exp_int_u_def exp_int_u_2_def upt_conv_Cons)

section \<open>\<open>reset\<close> and \<open>register_event\<close>\<close>

text \<open>
  Claim C2, as stated: a call of \<open>reset\<close> or \<open>register_event\<close> with a time before the
  anchor fails. It does not: the sampler anchored at 0 accepts the time \<open>-1\<close> and moves
  its anchor there.
\<close>

theorem reset_time_counterexample:
  "- 1 < t0 exp_unit
   \<and> \<not> isl (reset exp_unit (- 1) [0] False)
   \<and> \<not> isl (register_event exp_unit (- 1) [0] True)
   \<and> t0 (snd (projr (reset exp_unit (- 1) [0] False))) = - 1"
  by (simp add: reset_def register_event_def dot_def exp_unit_def Let_def rand_def)

text \<open>
  Claim C2, amended. \<open>reset\<close> and \<open>register_event\<close> (which is \<open>reset\<close>) do not compare
  the time with the anchor and never raise an assertion error: whenever the hidden state
  has the shape of \<open>vt\<close> the call returns normally, for a time before the anchor too, and
  the new anchor is the time given.
\<close>

theorem reset_accepts_any_time:
  "reset s cur_time new_h reset_sample \<noteq> Inl AssertionError
   \<and> register_event s cur_time new_h reset_sample = reset s cur_time new_h reset_sample
   \<and> (length (vt s) = length new_h \<longrightarrow>
        \<not> isl (reset s cur_time new_h reset_sample)
        \<and> t0 (snd (projr (reset s cur_time new_h reset_sample))) = cur_time)"
  by (simp add: reset_def register_event_def dot_def Let_def rand_def)

theorem reset_accepts_any_time_witness:
  "length (vt exp_unit) = length [0 :: real] \<and> - 1 < t0 exp_unit
   \<and> \<not> isl (reset exp_unit (- 1) [0] False)
   \<and> t0 (snd (projr (reset exp_unit (- 1) [0] False))) = - 1"
  using reset_accepts_any_time [of exp_unit "- 1" "[0]" False]
  by (simp add: exp_unit_def)

text \<open>
  Claim C3. A call \<open>reset(cur_time, new_h, reset_sample)\<close> with a hidden state of the
  shape of \<open>vt\<close>: when \<open>reset_sample\<close> is true the next number of the generator becomes
  the uniform variate and \<open>Q\<close> becomes 1; when it is false the variate and the generator
  are kept and \<open>Q\<close> is multiplied by \<open>1 - cdf(cur_time)\<close>, taken in the state before the
  call. In both cases \<open>c\<close> becomes \<open>vt . new_h + bt\<close>, the anchor becomes \<open>cur_time\<close>, and
  the result is \<open>generate_sample\<close> of the updated sampler.
\<close>

theorem reset_effect:
  "length (vt s) = length new_h \<Longrightarrow>
   (\<exists>s'. reset s cur_time new_h reset_sample = Inr (generate_sample s', s')
      \<and> (if reset_sample
          then u_unif s' = shd (random_state s) \<and> random_state s' = stl (random_state s)
               \<and> Q s' = 1
          else u_unif s' = u_unif s \<and> random_state s' = random_state s
               \<and> Q s' = Q s * (1 - cdf s cur_time))
      \<and> c s' = sum_list (map2 (*) (vt s) new_h) + bt s
      \<and> t0 s' = cur_time
      \<and> h s' = new_h)"
  by (simp add: reset_def dot_def Let_def rand_def)

theorem reset_effect_witness:
  "length (vt exp_unit) = length [5 :: real]
   \<and> (\<exists>s'. reset exp_unit 1 [5] False = Inr (generate_sample s', s')
        \<and> u_unif s' = 1 / 2 \<and> Q s' = exp (1 - exp 1) \<and> c s' = 0 \<and> t0 s' = 1 \<and> h s' = [5])
   \<and> (\<exists>s'. reset exp_unit 1 [5] True = Inr (generate_sample s', s')
        \<and> u_unif s' = 1 / 2 \<and> Q s' = 1 \<and> c s' = 0 \<and> t0 s' = 1 \<and> h s' = [5])"
  using reset_effect [of exp_unit "[5]" 1 False] reset_effect [of exp_unit "[5]" 1 True]
  by (auto simp add: exp_unit_def cdf_def exp_cdf_def)

section \<open>The sample that never fires\<close>

lemma exp_inverse_neg: "x / exp (- y :: real) = x * exp y"
  by (simp add: exp_minus field_simps)


text \<open>
  Claim C7. For both classes \<open>generate_sample\<close> returns \<open>+infinity\<close> exactly when the
  decay variable \<open>D\<close> is not positive; the callers \<open>reset_only_sample\<close> and \<open>reset\<close>
  return it as their ordinary result. For the exponential class \<open>D \<le> 0\<close> is reached
  with \<open>w = -1\<close>, \<open>c = -50\<close> and \<open>u_unif = 1 - exp (-7)\<close>.
\<close>

theorem generate_sample_never:
  "(generate_sample s = PosInf) = (decay_D s \<le> 0)
   \<and> (fst (reset_only_sample s cur_time) = PosInf) =
       (decay_D (snd (reset_only_sample s cur_time)) \<le> 0)
   \<and> (length (vt s) = length new_h \<longrightarrow>
        \<not> isl (reset s cur_time new_h reset_sample)
        \<and> (fst (projr (reset s cur_time new_h reset_sample)) = PosInf) =
            (decay_D (snd (projr (reset s cur_time new_h reset_sample))) \<le> 0))
   \<and> cls exp_decaying = ExpCDFSampler \<and> decay_D exp_decaying \<le> 0
   \<and> generate_sample exp_decaying = PosInf"
proof -
  have gs: "(generate_sample s' = PosInf) = (decay_D s' \<le> 0)" for s'
    by (cases "cls s'")
      (simp_all add: generate_sample_def decay_D_def exp_generate_sample_def
        sigmoid_generate_sample_def Let_def)
  have d: "decay_D exp_decaying = 1 - 7 * exp 50"
    by (simp add: decay_D_def exp_decaying_def exp_inverse_neg)
  have "(1 :: real) \<le> exp 50" by simp
  then have le: "decay_D exp_decaying \<le> 0" unfolding d by linarith
  have r1: "fst (reset_only_sample s cur_time) = generate_sample (snd (reset_only_sample s cur_time))"
    by (simp add: reset_only_sample_def Let_def rand_def)
  have r2: "length (vt s) = length new_h \<Longrightarrow>
      \<not> isl (reset s cur_time new_h reset_sample)
      \<and> fst (projr (reset s cur_time new_h reset_sample)) =
          generate_sample (snd (projr (reset s cur_time new_h reset_sample)))"
    by (simp add: reset_def dot_def Let_def rand_def)
  show ?thesis
    using gs le r1 r2 by (simp add: exp_decaying_def)
qed

theorem generate_sample_never_witness:
  "length (vt exp_decaying) = length [- 50 :: real]
   \<and> generate_sample exp_decaying = PosInf
   \<and> \<not> isl (reset exp_decaying 0 [- 50] False)
   \<and> fst (projr (reset exp_decaying 0 [- 50] False)) = PosInf"
proof -
  have "decay_D (snd (projr (reset exp_decaying 0 [- 50] False))) = 1 - 7 * exp 50"
    by (simp add: reset_def dot_def Let_def exp_decaying_def cdf_def exp_cdf_def decay_D_def
        exp_inverse_neg)
  moreover have "(1 :: real) \<le> exp 50" by simp
  ultimately have "decay_D (snd (projr (reset exp_decaying 0 [- 50] False))) \<le> 0"
    by linarith
  then show ?thesis
    using generate_sample_never [of exp_decaying 0 "[- 50]" False]
    by (simp add: exp_decaying_def)
qed

section \<open>The conditioning factor \<open>Q\<close>\<close>














end
